theory Spec2Isabelle
  imports Main
begin

section \<open>Account REST service: the route layer of \<open>service/routes.py\<close>\<close>

text \<open>
  The development embeds the seven route handlers of \<open>service/routes.py\<close> and the
  helper \<open>check_content_type\<close>. A handler takes the request and the store and returns
  its outcome together with the store it leaves behind; \<open>abort\<close> and a raised
  \<open>DataValidationError\<close> are the left summand of the outcome, and the store is returned
  as it is at the moment of the raise.

  The Flask machinery is outside the model: a request is what the handler reads from it
  (the \<open>Content-Type\<close> header and the outcome of \<open>request.get_json()\<close>, which is the
  decoded body or the exception Flask raises in its place), routing by method and path is
  the datatype \<open>route\<close>, and the calls to \<open>app.logger\<close> are left out, since they touch
  neither the response nor the store.
\<close>

subsection \<open>JSON values and calendar dates\<close>

datatype json =
    JNull
  | JBool bool
  | JNum int
  | JStr string
  | JArr "json list"
  | JObj "(string \<times> json) list"

record date =
  year :: nat
  month :: nat
  day :: nat

definition is_leap :: "nat \<Rightarrow> bool" where
  "is_leap y \<longleftrightarrow> y mod 4 = 0 \<and> (y mod 100 \<noteq> 0 \<or> y mod 400 = 0)"

definition days_in_month :: "nat \<Rightarrow> nat \<Rightarrow> nat" where
  "days_in_month y m =
     (if m = 2 then (if is_leap y then 29 else 28)
      else if m = 4 \<or> m = 6 \<or> m = 9 \<or> m = 11 then 30
      else 31)"

definition valid_date :: "date \<Rightarrow> bool" where
  "valid_date d \<longleftrightarrow>
     1 \<le> year d \<and> year d \<le> 9999 \<and> 1 \<le> month d \<and> month d \<le> 12 \<and>
     1 \<le> day d \<and> day d \<le> days_in_month (year d) (month d)"

text \<open>
  Decimal digits: the character of a digit value is read off the digit string, and the
  value of a character is its position there, if it has one.
\<close>

definition decimal_digits :: string where
  "decimal_digits = ''0123456789''"

primrec position :: "char \<Rightarrow> string \<Rightarrow> nat option" where
  "position c [] = None"
| "position c (x # xs) = (if x = c then Some 0 else map_option Suc (position c xs))"

definition digit_char :: "nat \<Rightarrow> char" where
  "digit_char n = decimal_digits ! (n mod 10)"

definition char_digit :: "char \<Rightarrow> nat option" where
  "char_digit c = position c decimal_digits"

definition pad2 :: "nat \<Rightarrow> string" where
  "pad2 n = [digit_char (n div 10 mod 10), digit_char (n mod 10)]"

definition pad4 :: "nat \<Rightarrow> string" where
  "pad4 n = [digit_char (n div 1000 mod 10), digit_char (n div 100 mod 10),
             digit_char (n div 10 mod 10), digit_char (n mod 10)]"

primrec digits_value :: "nat \<Rightarrow> string \<Rightarrow> nat option" where
  "digits_value acc [] = Some acc"
| "digits_value acc (c # cs) =
     (case char_digit c of
        None \<Rightarrow> None
      | Some d \<Rightarrow> digits_value (10 * acc + d) cs)"

text \<open>
  Modelled from the spec: \<open>date.isoformat\<close> and \<open>date.fromisoformat\<close>, which
  \<open>service/models.py\<close> (not among the sources) uses for the wire form of \<open>date_joined\<close>.
  The spec gives the wire form as the ISO-8601 calendar date \<open>YYYY-MM-DD\<close> and says that an
  unparseable date is a validation failure.
\<close>

definition isoformat :: "date \<Rightarrow> string" where
  "isoformat d = pad4 (year d) @ ''-'' @ pad2 (month d) @ ''-'' @ pad2 (day d)"

definition fromisoformat :: "string \<Rightarrow> date option" where
  "fromisoformat s =
     (if length s = 10 \<and> s ! 4 = CHR ''-'' \<and> s ! 7 = CHR ''-'' then
        (case digits_value 0 (take 4 s) of
           None \<Rightarrow> None
         | Some y \<Rightarrow>
             (case digits_value 0 (take 2 (drop 5 s)) of
                None \<Rightarrow> None
              | Some m \<Rightarrow>
                  (case digits_value 0 (drop 8 s) of
                     None \<Rightarrow> None
                   | Some d \<Rightarrow>
                       (let dt = \<lparr>year = y, month = m, day = d\<rparr>
                        in if valid_date dt then Some dt else None))))
      else None)"

subsection \<open>Python's \<open>str\<close> on an integer, for the f-strings of the handlers\<close>

fun str_nat :: "nat \<Rightarrow> string" where
  "str_nat n = (if n < 10 then [digit_char n] else str_nat (n div 10) @ [digit_char (n mod 10)])"

declare str_nat.simps [simp del]

definition str_int :: "int \<Rightarrow> string" where
  "str_int i = (if i < 0 then CHR ''-'' # str_nat (nat (- i)) else str_nat (nat i))"

subsection \<open>The Account entity and the store adapter\<close>

text \<open>
  \<open>service/models.py\<close> is not among the sources; the entity and its operations are
  modelled from the spec's data model (section 3) and component contract (section 4.1).
  An Account has an \<open>id\<close> that is unset until the store assigns it, four text fields and
  a date.
\<close>

record account =
  acc_id :: "int option"
  name :: string
  email :: string
  address :: string
  phone_number :: string
  date_joined :: date

text \<open>
  The store is the table of persisted rows in insertion order, and the next primary key
  the table will assign.
\<close>

record store =
  rows :: "account list"
  next_id :: int

datatype error =
    HTTPException nat string
  | DataValidationError string

text \<open>
  Modelled from the spec: \<open>Account.serialize\<close> (in \<open>service/models.py\<close>, not among the
  sources): a field-for-field JSON-compatible mapping, with \<open>date_joined\<close> rendered as an
  ISO-8601 calendar-date string.
\<close>

definition serialize :: "account \<Rightarrow> json" where
  "serialize a =
     JObj [(''id'', (case acc_id a of None \<Rightarrow> JNull | Some i \<Rightarrow> JNum i)),
           (''name'', JStr (name a)),
           (''email'', JStr (email a)),
           (''address'', JStr (address a)),
           (''phone_number'', JStr (phone_number a)),
           (''date_joined'', JStr (isoformat (date_joined a)))]"

text \<open>
  Modelled from the spec: the reading of one required text field of the wire record
  during \<open>Account.deserialize\<close>: a missing or malformed field is a ValidationError whose
  message names the problem.
\<close>

definition required_text :: "(string \<times> json) list \<Rightarrow> string \<Rightarrow> error + string" where
  "required_text kvs k =
     (case map_of kvs k of
        None \<Rightarrow> Inl (DataValidationError (''Invalid Account: missing '' @ k))
      | Some (JStr s) \<Rightarrow> Inr s
      | Some _ \<Rightarrow> Inl (DataValidationError (''Invalid Account: bad data in '' @ k)))"

text \<open>
  Modelled from the spec: the reading of \<open>date_joined\<close> during \<open>Account.deserialize\<close>: it
  defaults to the creation date if omitted on input, and an unparseable date is a
  ValidationError.
\<close>

definition joined_date :: "date \<Rightarrow> (string \<times> json) list \<Rightarrow> error + date" where
  "joined_date today kvs =
     (case map_of kvs ''date_joined'' of
        None \<Rightarrow> Inr today
      | Some (JStr s) \<Rightarrow>
          (case fromisoformat s of
             None \<Rightarrow> Inl (DataValidationError (''Invalid Account: bad date '' @ s))
           | Some d \<Rightarrow> Inr d)
      | Some _ \<Rightarrow> Inl (DataValidationError ''Invalid Account: bad data in date_joined''))"

text \<open>
  Modelled from the spec: \<open>Account.deserialize\<close> (in \<open>service/models.py\<close>, not among the
  sources): it parses a JSON-compatible mapping into an Account and fails with a
  ValidationError when a required field is missing or malformed. The Account it is
  called on contributes its \<open>id\<close> only: a client-supplied \<open>id\<close> is ignored and the
  \<open>id\<close> of a record is not re-assignable, every other field is replaced. \<open>today\<close> is
  the date on which the request is handled.
\<close>

definition deserialize :: "date \<Rightarrow> int option \<Rightarrow> json \<Rightarrow> error + account" where
  "deserialize today self_id data =
     (case data of
        JObj kvs \<Rightarrow>
          (case required_text kvs ''name'' of
             Inl e \<Rightarrow> Inl e
           | Inr n \<Rightarrow>
               (case required_text kvs ''email'' of
                  Inl e \<Rightarrow> Inl e
                | Inr m \<Rightarrow>
                    (case required_text kvs ''address'' of
                       Inl e \<Rightarrow> Inl e
                     | Inr ad \<Rightarrow>
                         (case required_text kvs ''phone_number'' of
                            Inl e \<Rightarrow> Inl e
                          | Inr p \<Rightarrow>
                              (case joined_date today kvs of
                                 Inl e \<Rightarrow> Inl e
                               | Inr d \<Rightarrow>
                                   Inr \<lparr>acc_id = self_id, name = n, email = m, address = ad,
                                        phone_number = p, date_joined = d\<rparr>)))))
      | _ \<Rightarrow> Inl (DataValidationError
                  ''Invalid Account: body of request contained bad or no data''))"

text \<open>
  Modelled from the spec: the store operations of \<open>service/models.py\<close> (not among the
  sources). \<open>create\<close> inserts one row and assigns its \<open>id\<close>; \<open>find\<close> looks up by primary
  key and returns the record or an absent indicator; \<open>all\<close> returns every row; \<open>update\<close>
  persists the fields of an already-located record under its unchanged \<open>id\<close>; \<open>delete\<close>
  removes the row with the given \<open>id\<close>, if present.
\<close>

definition account_create :: "account \<Rightarrow> store \<Rightarrow> account \<times> store" where
  "account_create a st =
     (let a' = a\<lparr>acc_id := Some (next_id st)\<rparr>
      in (a', st\<lparr>rows := rows st @ [a'], next_id := next_id st + 1\<rparr>))"

definition account_find :: "store \<Rightarrow> int \<Rightarrow> account option" where
  "account_find st i = List.find (\<lambda>a. acc_id a = Some i) (rows st)"

definition account_all :: "store \<Rightarrow> account list" where
  "account_all st = rows st"

definition account_update :: "account \<Rightarrow> store \<Rightarrow> store" where
  "account_update a st =
     st\<lparr>rows := map (\<lambda>r. if acc_id r = acc_id a then a else r) (rows st)\<rparr>"

definition account_delete :: "account \<Rightarrow> store \<Rightarrow> store" where
  "account_delete a st = st\<lparr>rows := filter (\<lambda>r. acc_id r \<noteq> acc_id a) (rows st)\<rparr>"

subsection \<open>Requests, responses and status codes\<close>

text \<open>
  \<open>content_type\<close> is \<open>request.headers.get("Content-Type")\<close>. \<open>get_json\<close> is the outcome
  of the call \<open>request.get_json()\<close>: the decoded body, or the \<open>HTTPException\<close> that Flask
  raises at the call when it does not decode the body (400 Bad Request for a body that is
  not JSON). \<open>today\<close> is the value of \<open>date.today()\<close> while the request is handled.
\<close>

record request =
  content_type :: "string option"
  get_json :: "error + json"
  today :: date

datatype body = Json json | Text string

record response =
  status_code :: nat
  body :: body
  headers :: "(string \<times> string) list"

text \<open>The constants of \<open>service/common/status.py\<close> that the handlers name.\<close>

definition HTTP_200_OK :: nat where "HTTP_200_OK = 200"
definition HTTP_201_CREATED :: nat where "HTTP_201_CREATED = 201"
definition HTTP_204_NO_CONTENT :: nat where "HTTP_204_NO_CONTENT = 204"
definition HTTP_400_BAD_REQUEST :: nat where "HTTP_400_BAD_REQUEST = 400"
definition HTTP_404_NOT_FOUND :: nat where "HTTP_404_NOT_FOUND = 404"
definition HTTP_415_UNSUPPORTED_MEDIA_TYPE :: nat where "HTTP_415_UNSUPPORTED_MEDIA_TYPE = 415"

lemmas status_defs =
  HTTP_200_OK_def HTTP_201_CREATED_def HTTP_204_NO_CONTENT_def HTTP_400_BAD_REQUEST_def
  HTTP_404_NOT_FOUND_def HTTP_415_UNSUPPORTED_MEDIA_TYPE_def

definition make_response :: "body \<Rightarrow> nat \<Rightarrow> (string \<times> string) list \<Rightarrow> response" where
  "make_response b code hs = \<lparr>status_code = code, body = b, headers = hs\<rparr>"

text \<open>
  Modelled from the spec: the error handlers of \<open>service/common/error_handlers.py\<close> (not
  among the sources), by the error taxonomy of section 7: an \<open>abort\<close> becomes a response
  with the status code and the message it was given, a ValidationError becomes HTTP 400
  with its message.
\<close>

definition error_response :: "error \<Rightarrow> response" where
  "error_response e =
     (case e of
        HTTPException code msg \<Rightarrow> make_response (Text msg) code []
      | DataValidationError msg \<Rightarrow> make_response (Text msg) HTTP_400_BAD_REQUEST [])"

subsection \<open>The handlers of \<open>service/routes.py\<close>\<close>

type_synonym outcome = "(error + response) \<times> store"

definition check_content_type :: "request \<Rightarrow> string \<Rightarrow> error + unit" where
  "check_content_type req media_type =
     (case content_type req of
        None \<Rightarrow>
          Inl (HTTPException HTTP_415_UNSUPPORTED_MEDIA_TYPE
                 (''Content-Type must be '' @ media_type))
      | Some ct \<Rightarrow>
          if ct \<noteq> [] \<and> ct = media_type then Inr ()
          else Inl (HTTPException HTTP_415_UNSUPPORTED_MEDIA_TYPE
                      (''Content-Type must be '' @ media_type)))"

definition health :: "request \<Rightarrow> store \<Rightarrow> outcome" where
  "health req st =
     (Inr (make_response (Json (JObj [(''status'', JStr ''OK'')])) HTTP_200_OK []), st)"

definition index :: "request \<Rightarrow> store \<Rightarrow> outcome" where
  "index req st =
     (Inr (make_response
             (Json (JObj [(''name'', JStr ''Account REST API Service''),
                          (''version'', JStr ''1.0'')]))
             HTTP_200_OK []), st)"

definition create_accounts :: "request \<Rightarrow> store \<Rightarrow> outcome" where
  "create_accounts req st =
     (case check_content_type req ''application/json'' of
        Inl e \<Rightarrow> (Inl e, st)
      | Inr _ \<Rightarrow>
          (case get_json req of
             Inl e \<Rightarrow> (Inl e, st)
           | Inr data \<Rightarrow>
               (case deserialize (today req) None data of
                  Inl e \<Rightarrow> (Inl e, st)
                | Inr account \<Rightarrow>
                    (let (account', st') = account_create account st;
                         message = serialize account';
                         location_url = ''/''
                     in (Inr (make_response (Json message) HTTP_201_CREATED
                                [(''Location'', location_url)]), st')))))"

definition list_accounts :: "request \<Rightarrow> store \<Rightarrow> outcome" where
  "list_accounts req st =
     (let accounts = account_all st;
          account_data = map serialize accounts
      in (Inr (make_response (Json (JArr account_data)) HTTP_200_OK []), st))"

definition not_found_message :: "int \<Rightarrow> string" where
  "not_found_message account_id =
     ''Account with id '' @ str_int account_id @ '' could not be found.''"

definition get_accounts :: "int \<Rightarrow> request \<Rightarrow> store \<Rightarrow> outcome" where
  "get_accounts account_id req st =
     (case account_find st account_id of
        None \<Rightarrow>
          (Inl (HTTPException HTTP_404_NOT_FOUND (not_found_message account_id)), st)
      | Some account \<Rightarrow>
          (Inr (make_response (Json (serialize account)) HTTP_200_OK []), st))"

definition update_account :: "int \<Rightarrow> request \<Rightarrow> store \<Rightarrow> outcome" where
  "update_account account_id req st =
     (case get_json req of
        Inl e \<Rightarrow> (Inl e, st)
      | Inr data \<Rightarrow>
          (case account_find st account_id of
             None \<Rightarrow>
               (Inl (HTTPException HTTP_404_NOT_FOUND (not_found_message account_id)), st)
           | Some account \<Rightarrow>
               (case deserialize (today req) (acc_id account) data of
                  Inl e \<Rightarrow> (Inl e, st)
                | Inr account' \<Rightarrow>
                    (let st' = account_update account' st
                     in (Inr (make_response (Json (serialize account')) HTTP_200_OK []),
                         st')))))"

definition delete_account :: "int \<Rightarrow> request \<Rightarrow> store \<Rightarrow> outcome" where
  "delete_account account_id req st =
     (let st' = (case account_find st account_id of
                   None \<Rightarrow> st
                 | Some account \<Rightarrow> account_delete account st)
      in (Inr (make_response (Text '''') HTTP_204_NO_CONTENT []), st'))"

text \<open>
  The route table of the \<open>@app.route\<close> decorators, and the dispatch of a request to its
  handler. An outcome that is an error is turned into its response by the error
  handlers; the store is the one the handler left.
\<close>

datatype route =
    GET_health
  | GET_index
  | POST_accounts
  | GET_accounts
  | GET_account int
  | PUT_account int
  | DELETE_account int

fun handler :: "route \<Rightarrow> request \<Rightarrow> store \<Rightarrow> outcome" where
  "handler GET_health = health"
| "handler GET_index = index"
| "handler POST_accounts = create_accounts"
| "handler GET_accounts = list_accounts"
| "handler (GET_account i) = get_accounts i"
| "handler (PUT_account i) = update_account i"
| "handler (DELETE_account i) = delete_account i"

definition dispatch :: "route \<Rightarrow> request \<Rightarrow> store \<Rightarrow> response \<times> store" where
  "dispatch r req st =
     (case handler r req st of
        (Inl e, st') \<Rightarrow> (error_response e, st')
      | (Inr resp, st') \<Rightarrow> (resp, st'))"

subsection \<open>Example data\<close>

text \<open>
  One stored Account, the update body of \<open>test_update_an_account\<close>, the incomplete
  body of \<open>test_bad_request\<close>, and a request whose body is not JSON, for the concrete
  instances below.
\<close>

definition example_date :: date where
  "example_date = \<lparr>year = 2024, month = 1, day = 1\<rparr>"

definition example_account :: account where
  "example_account =
     \<lparr>acc_id = Some 1, name = ''Ann'', email = ''ann@example.com'',
      address = ''1 Main Street'', phone_number = ''5550100'', date_joined = example_date\<rparr>"

definition example_store :: store where
  "example_store = \<lparr>rows = [example_account], next_id = 2\<rparr>"

definition empty_store :: store where
  "empty_store = \<lparr>rows = [], next_id = 1\<rparr>"

definition updated_data :: json where
  "updated_data =
     JObj [(''name'', JStr ''New Name''), (''address'', JStr ''New Address''),
           (''email'', JStr ''new@email.com''), (''date_joined'', JStr ''2024-01-01''),
           (''phone_number'', JStr ''0123456778'')]"

definition not_enough_data :: json where
  "not_enough_data = JObj [(''name'', JStr ''not enough data'')]"

definition json_request :: "json \<Rightarrow> request" where
  "json_request data =
     \<lparr>content_type = Some ''application/json'', get_json = Inr data, today = example_date\<rparr>"

definition undecodable_request :: request where
  "undecodable_request =
     \<lparr>content_type = Some ''application/json'',
      get_json = Inl (HTTPException HTTP_400_BAD_REQUEST ''Failed to decode JSON object''),
      today = example_date\<rparr>"

section \<open>Auxiliary facts\<close>

subsection \<open>Dates: parsing undoes formatting\<close>

lemma position_nth:
  "distinct xs \<Longrightarrow> n < length xs \<Longrightarrow> position (xs ! n) xs = Some n"
proof (induction xs arbitrary: n)
  case Nil
  then show ?case by simp
next
  case (Cons x xs)
  then show ?case by (cases n) auto
qed

lemma char_digit_digit_char:
  assumes "n < 10"
  shows "char_digit (digit_char n) = Some n"
proof -
  have "distinct decimal_digits" and "length decimal_digits = 10"
    by (simp_all add: decimal_digits_def)
  with assms position_nth [of decimal_digits n] show ?thesis
    by (simp add: char_digit_def digit_char_def)
qed

lemma digits_value_pad2: "n < 100 \<Longrightarrow> digits_value 0 (pad2 n) = Some n"
  by (simp add: pad2_def char_digit_digit_char)

lemma pad4_arith:
  fixes n :: nat
  assumes "n < 10000"
  shows "10 * (10 * (10 * (n div 1000 mod 10) + n div 100 mod 10) + n div 10 mod 10) + n mod 10 = n"
proof -
  have a: "n div 1000 mod 10 = n div 1000" using assms by simp
  have "n div 1000 = n div 100 div 10" by (simp add: div_mult2_eq)
  then have e1: "10 * (n div 1000) + n div 100 mod 10 = n div 100" by simp
  have "n div 100 = n div 10 div 10" by (simp add: div_mult2_eq)
  then have e2: "10 * (n div 100) + n div 10 mod 10 = n div 10" by simp
  have e3: "10 * (n div 10) + n mod 10 = n" by simp
  show ?thesis by (simp only: a e1 e2 e3)
qed

lemma digits_value_pad4: "n < 10000 \<Longrightarrow> digits_value 0 (pad4 n) = Some n"
  using pad4_arith [of n] by (simp add: pad4_def char_digit_digit_char)

lemma length_pad2: "length (pad2 n) = 2"
  by (simp add: pad2_def)

lemma length_pad4: "length (pad4 n) = 4"
  by (simp add: pad4_def)

lemma days_in_month_le: "days_in_month y m \<le> 31"
  by (simp add: days_in_month_def)

lemma fromisoformat_isoformat:
  assumes "valid_date d"
  shows "fromisoformat (isoformat d) = Some d"
proof -
  from assms have y: "year d < 10000" and m: "month d < 100" and dd: "day d < 100"
    using days_in_month_le [of "year d" "month d"] by (auto simp: valid_date_def)
  have l: "length (isoformat d) = 10"
    by (simp add: isoformat_def length_pad2 length_pad4)
  have t4: "take 4 (isoformat d) = pad4 (year d)"
    by (simp add: isoformat_def length_pad4)
  have t2: "take 2 (drop 5 (isoformat d)) = pad2 (month d)"
    by (simp add: isoformat_def length_pad4 length_pad2)
  have d8: "drop 8 (isoformat d) = pad2 (day d)"
    by (simp add: isoformat_def length_pad4 length_pad2)
  have s4: "isoformat d ! 4 = CHR ''-''"
    by (simp add: isoformat_def nth_append length_pad4)
  have s7: "isoformat d ! 7 = CHR ''-''"
    by (simp add: isoformat_def nth_append length_pad4 length_pad2)
  have r: "\<lparr>year = year d, month = month d, day = day d\<rparr> = d" by simp
  show ?thesis
    unfolding fromisoformat_def using assms
    by (simp add: l t4 t2 d8 s4 s7 digits_value_pad4 [OF y] digits_value_pad2 [OF m]
        digits_value_pad2 [OF dd] r)
qed

lemma fromisoformat_valid: "fromisoformat s = Some d \<Longrightarrow> valid_date d"
  by (auto simp: fromisoformat_def Let_def split: if_splits option.splits)

subsection \<open>Facts about deserialization\<close>

lemma required_text_error:
  "required_text kvs k = Inl e \<Longrightarrow> \<exists>m. e = DataValidationError m"
  by (auto simp: required_text_def split: option.splits json.splits)

lemma required_text_missing:
  "map_of kvs k = None \<Longrightarrow> \<exists>m. required_text kvs k = Inl (DataValidationError m)"
  by (simp add: required_text_def)

lemma joined_date_error:
  "joined_date t kvs = Inl e \<Longrightarrow> \<exists>m. e = DataValidationError m"
  by (auto simp: joined_date_def split: option.splits json.splits)

lemma deserialize_error:
  "deserialize t sid data = Inl e \<Longrightarrow> \<exists>m. e = DataValidationError m"
  by (auto simp: deserialize_def split: json.splits sum.splits
      dest: required_text_error joined_date_error)

lemma deserialize_self_id:
  "deserialize t sid data = Inr a \<Longrightarrow> deserialize t sid' data = Inr (a\<lparr>acc_id := sid'\<rparr>)"
  by (auto simp: deserialize_def split: json.splits sum.splits)


lemma deserialize_acc_id: "deserialize t sid data = Inr a \<Longrightarrow> acc_id a = sid"
  by (auto simp: deserialize_def split: json.splits sum.splits)

lemma deserialize_missing_field:
  assumes "k \<in> {''name'', ''email'', ''address'', ''phone_number''}"
    and "map_of kvs k = None"
  shows "\<exists>m. deserialize t sid (JObj kvs) = Inl (DataValidationError m)"
proof (cases "deserialize t sid (JObj kvs)")
  case (Inl e)
  then show ?thesis using deserialize_error by blast
next
  case (Inr a)
  then have "\<forall>k \<in> {''name'', ''email'', ''address'', ''phone_number''}. \<exists>s. required_text kvs k = Inr s"
    by (auto simp: deserialize_def split: sum.splits)
  with assms required_text_missing [of kvs k] show ?thesis by fastforce
qed

lemma deserialize_serialize_eq:
  assumes "valid_date (date_joined a)"
  shows "deserialize t sid (serialize a) = Inr (a\<lparr>acc_id := sid\<rparr>)"
  using assms
  by (simp add: deserialize_def serialize_def required_text_def joined_date_def
      fromisoformat_isoformat)

subsection \<open>Facts about the store adapter\<close>

lemma account_find_Some:
  "account_find st i = Some a \<Longrightarrow> a \<in> set (rows st) \<and> acc_id a = Some i"
  by (auto simp: account_find_def find_Some_iff)

lemma account_find_None:
  "account_find st i = None \<longleftrightarrow> Some i \<notin> set (map acc_id (rows st))"
  by (simp add: account_find_def find_None_iff image_iff) metis

lemma account_find_delete:
  "acc_id a = Some i \<Longrightarrow> account_find (account_delete a st) i = None"
  by (simp add: account_find_def account_delete_def find_None_iff)

subsection \<open>Facts about the handlers\<close>

lemma check_content_type_ok:
  "check_content_type req ''application/json'' = Inr () \<longleftrightarrow>
   content_type req = Some ''application/json''"
  by (auto simp: check_content_type_def split: option.splits)

lemma check_content_type_error:
  "content_type req \<noteq> Some ''application/json'' \<Longrightarrow>
   check_content_type req ''application/json'' =
     Inl (HTTPException 415 ''Content-Type must be application/json'')"
  by (auto simp: check_content_type_def status_defs split: option.splits)

lemma create_accounts_unsupported_media_type:
  assumes "content_type req \<noteq> Some ''application/json''"
  shows "dispatch POST_accounts req st =
    (make_response (Text ''Content-Type must be application/json'') 415 [], st)"
  using check_content_type_error [OF assms]
  by (simp add: dispatch_def create_accounts_def error_response_def)





lemma update_account_ignores_content_type:
  "dispatch (PUT_account i) (req\<lparr>content_type := ct\<rparr>) st = dispatch (PUT_account i) req st"
  by (simp add: dispatch_def update_account_def cong: option.case_cong sum.case_cong)

section \<open>The claims\<close>

subsection \<open>Reading one Account\<close>

text \<open>
  Claim C3. For every integer id, \<open>GET /accounts/{id}\<close> returns 200 with the serialized
  Account when an Account with that id is in the store, and 404 with a message naming the
  missing id when none is; the two cases are exhaustive, so these are the only outcomes.
  The store is left as it was in both.
\<close>

theorem get_accounts_found_or_404:
  "(Some i \<in> set (map acc_id (rows st)) \<longrightarrow>
      (\<exists>a \<in> set (rows st). acc_id a = Some i \<and>
         dispatch (GET_account i) req st =
           (make_response (Json (serialize a)) 200 [], st))) \<and>
   (Some i \<notin> set (map acc_id (rows st)) \<longrightarrow>
      dispatch (GET_account i) req st =
        (make_response (Text (''Account with id '' @ str_int i @ '' could not be found.''))
           404 [], st))"
proof (cases "account_find st i")
  case None
  moreover from None have "Some i \<notin> set (map acc_id (rows st))"
    using account_find_None [of st i] by simp
  ultimately show ?thesis
    by (simp add: dispatch_def get_accounts_def error_response_def
        not_found_message_def status_defs)
next
  case (Some a)
  from account_find_Some [OF Some] have "a \<in> set (rows st)" and "acc_id a = Some i"
    by simp_all
  moreover from Some have "dispatch (GET_account i) req st =
      (make_response (Json (serialize a)) 200 [], st)"
    by (simp add: dispatch_def get_accounts_def status_defs)
  moreover from Some have "Some i \<in> set (map acc_id (rows st))"
    using account_find_None [of st i] by simp
  ultimately show ?thesis by blast
qed

text \<open>An instance of each case: id 1 is stored, id 0 is not.\<close>

theorem get_accounts_found_or_404_witness:
  "Some 1 \<in> set (map acc_id (rows example_store)) \<and>
   dispatch (GET_account 1) (json_request JNull) example_store =
     (make_response (Json (serialize example_account)) 200 [], example_store) \<and>
   Some 0 \<notin> set (map acc_id (rows example_store)) \<and>
   dispatch (GET_account 0) (json_request JNull) example_store =
     (make_response (Text ''Account with id 0 could not be found.'') 404 [], example_store)"
proof -
  have s: "str_int 0 = ''0''"
    by (simp add: str_int_def str_nat.simps digit_char_def decimal_digits_def)
  have r: "rows example_store = [example_account]" "acc_id example_account = Some 1"
    by (simp_all add: example_store_def example_account_def)
  from get_accounts_found_or_404 [of 1 example_store "json_request JNull"]
    get_accounts_found_or_404 [of 0 example_store "json_request JNull"] s r
  show ?thesis by simp
qed

subsection \<open>Deleting an Account\<close>

text \<open>
  Claim C4. \<open>DELETE /accounts/{id}\<close> is idempotent. For every id and every store it
  answers 204 with an empty body whether or not the Account exists; afterwards the rows
  are the former rows without those of that id, so no Account with that id is found; and
  a second \<open>DELETE\<close> right after the first answers 204 again and changes nothing.
\<close>

theorem delete_account_idempotent:
  "fst (dispatch (DELETE_account i) req st) = make_response (Text '''') 204 [] \<and>
   rows (snd (dispatch (DELETE_account i) req st)) =
     filter (\<lambda>r. acc_id r \<noteq> Some i) (rows st) \<and>
   account_find (snd (dispatch (DELETE_account i) req st)) i = None \<and>
   dispatch (DELETE_account i) req' (snd (dispatch (DELETE_account i) req st)) =
     (make_response (Text '''') 204 [], snd (dispatch (DELETE_account i) req st))"
proof -
  define st' where "st' = snd (dispatch (DELETE_account i) req st)"
  have resp: "\<And>q s. fst (dispatch (DELETE_account i) q s) = make_response (Text '''') 204 []"
    by (simp add: dispatch_def delete_account_def status_defs)
  have rows: "rows st' = filter (\<lambda>r. acc_id r \<noteq> Some i) (rows st)"
  proof (cases "account_find st i")
    case None
    then have "\<forall>r \<in> set (rows st). acc_id r \<noteq> Some i"
      by (simp add: account_find_def find_None_iff)
    with None show ?thesis
      by (simp add: st'_def dispatch_def delete_account_def)
  next
    case (Some a)
    with account_find_Some [OF Some] show ?thesis
      by (simp add: st'_def dispatch_def delete_account_def account_delete_def)
  qed
  then have absent: "account_find st' i = None"
    by (simp add: account_find_def find_None_iff)
  then have "snd (dispatch (DELETE_account i) req' st') = st'"
    by (simp add: dispatch_def delete_account_def)
  with resp [of req' st'] have "dispatch (DELETE_account i) req' st' =
      (make_response (Text '''') 204 [], st')"
    by (simp add: prod_eq_iff)
  with resp [of req st] rows absent show ?thesis
    by (simp add: st'_def)
qed

subsection \<open>Creating an Account\<close>

text \<open>
  Claim C5. For every \<open>POST /accounts\<close> whose \<open>Content-Type\<close> is \<open>application/json\<close> and
  whose decoded body deserializes to an Account, the response is 201, its body is the
  serialization of the created Account with the id the store assigned, it carries a
  \<open>Location\<close> header (the placeholder \<open>/\<close>), and the store afterwards is the former
  store with exactly that one row appended.
\<close>

theorem create_accounts_created:
  assumes "content_type req = Some ''application/json''"
    and "get_json req = Inr data"
    and "deserialize (today req) None data = Inr a"
  shows "dispatch POST_accounts req st =
    (make_response (Json (serialize (a\<lparr>acc_id := Some (next_id st)\<rparr>))) 201
       [(''Location'', ''/'')],
     st\<lparr>rows := rows st @ [a\<lparr>acc_id := Some (next_id st)\<rparr>], next_id := next_id st + 1\<rparr>)"
  using assms check_content_type_ok [of req]
  by (simp add: dispatch_def create_accounts_def account_create_def status_defs Let_def)

text \<open>An instance: the body of \<open>test_update_an_account\<close> posted to the example store.\<close>

theorem create_accounts_created_witness:
  "dispatch POST_accounts (json_request updated_data) example_store =
    (make_response
       (Json (JObj [(''id'', JNum 2), (''name'', JStr ''New Name''),
                    (''email'', JStr ''new@email.com''), (''address'', JStr ''New Address''),
                    (''phone_number'', JStr ''0123456778''),
                    (''date_joined'', JStr ''2024-01-01'')]))
       201 [(''Location'', ''/'')],
     \<lparr>rows = [example_account,
              \<lparr>acc_id = Some 2, name = ''New Name'', email = ''new@email.com'',
               address = ''New Address'', phone_number = ''0123456778'',
               date_joined = example_date\<rparr>],
      next_id = 3\<rparr>)"
proof -
  have c: "content_type (json_request updated_data) = Some ''application/json''"
    by (simp add: json_request_def)
  have f: "fromisoformat ''2024-01-01'' = Some example_date"
    by (simp add: fromisoformat_def char_digit_def decimal_digits_def valid_date_def days_in_month_def
        is_leap_def example_date_def)
  have g: "get_json (json_request updated_data) = Inr updated_data"
    by (simp add: json_request_def)
  have d: "deserialize (today (json_request updated_data)) None updated_data =
           Inr \<lparr>acc_id = None, name = ''New Name'', email = ''new@email.com'',
                address = ''New Address'', phone_number = ''0123456778'',
                date_joined = example_date\<rparr>"
    by (simp add: json_request_def updated_data_def deserialize_def required_text_def
        joined_date_def f)
  have i: "isoformat example_date = ''2024-01-01''"
    by (simp add: isoformat_def pad4_def pad2_def digit_char_def decimal_digits_def example_date_def)
  from create_accounts_created [OF c g d, of example_store] show ?thesis
    by (simp add: serialize_def i example_store_def)
qed

text \<open>
  Claim C8. For every \<open>POST /accounts\<close> whose \<open>Content-Type\<close> is \<open>application/json\<close> and
  whose decoded body lacks one of the required text fields or fails deserialization in any
  other way, the response is 400 and the store is unchanged: no Account is created.
\<close>

theorem create_accounts_bad_request:
  assumes "content_type req = Some ''application/json''"
    and "get_json req = Inr data"
    and "(\<exists>kvs k. data = JObj kvs \<and>
            k \<in> {''name'', ''email'', ''address'', ''phone_number''} \<and> map_of kvs k = None) \<or>
         (\<exists>e. deserialize (today req) None data = Inl e)"
  shows "status_code (fst (dispatch POST_accounts req st)) = 400 \<and>
    snd (dispatch POST_accounts req st) = st"
proof -
  from assms(3) obtain e where "deserialize (today req) None data = Inl e"
    using deserialize_missing_field by metis
  moreover from this obtain m where "e = DataValidationError m"
    using deserialize_error by blast
  ultimately show ?thesis
    using assms(1,2) check_content_type_ok [of req]
    by (simp add: dispatch_def create_accounts_def error_response_def make_response_def
        status_defs)
qed

text \<open>An instance: the body \<open>{"name": "not enough data"}\<close> of \<open>test_bad_request\<close>.\<close>

theorem create_accounts_bad_request_witness:
  "content_type (json_request not_enough_data) = Some ''application/json'' \<and>
   get_json (json_request not_enough_data) =
     Inr (JObj [(''name'', JStr ''not enough data'')]) \<and>
   map_of [(''name'', JStr ''not enough data'')] ''email'' = None \<and>
   status_code (fst (dispatch POST_accounts (json_request not_enough_data) example_store)) = 400 \<and>
   snd (dispatch POST_accounts (json_request not_enough_data) example_store) = example_store"
proof -
  have c: "content_type (json_request not_enough_data) = Some ''application/json''"
    by (simp add: json_request_def)
  have g: "get_json (json_request not_enough_data) =
      Inr (JObj [(''name'', JStr ''not enough data'')])"
    by (simp add: json_request_def not_enough_data_def)
  have m: "map_of [(''name'', JStr ''not enough data'')] ''email'' = None"
    by simp
  have "(\<exists>kvs k. JObj [(''name'', JStr ''not enough data'')] = JObj kvs \<and>
            k \<in> {''name'', ''email'', ''address'', ''phone_number''} \<and> map_of kvs k = None) \<or>
         (\<exists>e. deserialize (today (json_request not_enough_data)) None
            (JObj [(''name'', JStr ''not enough data'')]) = Inl e)"
    using m by blast
  from create_accounts_bad_request [OF c g this, of example_store] c g m show ?thesis
    by simp
qed

subsection \<open>Updating an Account\<close>

text \<open>
  Claim C9, as amended. In \<open>PUT /accounts/{id}\<close> the handler first calls
  \<open>request.get_json()\<close>, then looks the Account up, then deserializes. So the not-found
  check takes precedence over the deserialization of the body, but not over its decoding:
  for every request whose body \<open>get_json\<close> decodes and that targets an id with no Account
  in the store, the response is 404, whatever the decoded body is, and the store is
  unchanged; a request whose body \<open>get_json\<close> refuses is answered with the error of
  \<open>get_json\<close>, whether or not the id is in the store.
\<close>

theorem update_account_not_found_first:
  "(get_json req = Inr data \<and> account_find st i = None \<longrightarrow>
      dispatch (PUT_account i) req st =
        (make_response (Text (''Account with id '' @ str_int i @ '' could not be found.''))
           404 [], st)) \<and>
   (get_json req = Inl e \<longrightarrow>
      dispatch (PUT_account i) req st = (error_response e, st))"
  by (simp add: dispatch_def update_account_def error_response_def not_found_message_def
      status_defs)

text \<open>
  An instance of each part, at id 0 of the empty store: the incomplete body of
  \<open>test_bad_request\<close>, which decodes and would fail deserialization, and a body that is
  not JSON.
\<close>

theorem update_account_not_found_first_witness:
  "get_json (json_request not_enough_data) = Inr not_enough_data \<and>
   account_find empty_store 0 = None \<and>
   deserialize example_date None not_enough_data =
     Inl (DataValidationError ''Invalid Account: missing email'') \<and>
   dispatch (PUT_account 0) (json_request not_enough_data) empty_store =
     (make_response (Text ''Account with id 0 could not be found.'') 404 [], empty_store) \<and>
   get_json undecodable_request = Inl (HTTPException 400 ''Failed to decode JSON object'') \<and>
   dispatch (PUT_account 0) undecodable_request empty_store =
     (make_response (Text ''Failed to decode JSON object'') 400 [], empty_store)"
proof -
  have g: "get_json (json_request not_enough_data) = Inr not_enough_data"
    by (simp add: json_request_def)
  have h: "account_find empty_store 0 = None"
    by (simp add: account_find_def empty_store_def)
  have s: "str_int 0 = ''0''"
    by (simp add: str_int_def str_nat.simps digit_char_def decimal_digits_def)
  have d: "deserialize example_date None not_enough_data =
     Inl (DataValidationError ''Invalid Account: missing email'')"
    by (simp add: deserialize_def required_text_def not_enough_data_def)
  have u: "get_json undecodable_request =
      Inl (HTTPException 400 ''Failed to decode JSON object'')"
    by (simp add: undecodable_request_def status_defs)
  have r: "error_response (HTTPException 400 ''Failed to decode JSON object'') =
      make_response (Text ''Failed to decode JSON object'') 400 []"
    by (simp add: error_response_def)
  from update_account_not_found_first
      [where req = "json_request not_enough_data" and data = not_enough_data
        and st = empty_store and i = 0]
    update_account_not_found_first
      [where req = undecodable_request and st = empty_store and i = 0
        and e = "HTTPException 400 ''Failed to decode JSON object''"]
    g h s d u r
  show ?thesis by simp
qed

text \<open>
  The claim as first stated, 404 for every request that targets a missing id, fails at
  the request whose body is not JSON: it is sent to id 0 of the empty store and answered
  with 400.
\<close>

theorem update_account_decodes_before_lookup:
  "account_find empty_store 0 = None \<and>
   status_code (fst (dispatch (PUT_account 0) undecodable_request empty_store)) = 400 \<and>
   status_code (fst (dispatch (PUT_account 0) undecodable_request empty_store)) \<noteq> 404"
  by (simp add: account_find_def empty_store_def dispatch_def update_account_def
      undecodable_request_def error_response_def make_response_def status_defs)

text \<open>
  Claim C1. Every write request (\<open>POST /accounts\<close> or \<open>PUT /accounts/{id}\<close>) whose
  \<open>Content-Type\<close> is absent or is not exactly \<open>application/json\<close> is answered with 415 and
  a message stating the required media type, and the store is not touched. The handler of
  \<open>POST\<close> does so (\<open>create_accounts_unsupported_media_type\<close>), the handler of \<open>PUT\<close> never
  calls \<open>check_content_type\<close> and so answers whatever the header is
  (\<open>update_account_ignores_content_type\<close>): sent with \<open>application/json; charset=utf-8\<close>,
  which Flask parses as JSON, the update body of \<open>test_update_an_account\<close> is answered
  with 200 and the stored row is rewritten, while \<open>POST\<close> answers the same request with
  415.
\<close>

theorem update_account_skips_content_type_check:
  "dispatch (PUT_account 1)
     \<lparr>content_type = Some ''application/json; charset=utf-8'', get_json = Inr updated_data,
      today = example_date\<rparr> example_store =
     (make_response
        (Json (JObj [(''id'', JNum 1), (''name'', JStr ''New Name''),
                     (''email'', JStr ''new@email.com''), (''address'', JStr ''New Address''),
                     (''phone_number'', JStr ''0123456778''),
                     (''date_joined'', JStr ''2024-01-01'')]))
        200 [],
      \<lparr>rows = [\<lparr>acc_id = Some 1, name = ''New Name'', email = ''new@email.com'',
                address = ''New Address'', phone_number = ''0123456778'',
                date_joined = example_date\<rparr>],
       next_id = 2\<rparr>) \<and>
   dispatch POST_accounts
     \<lparr>content_type = Some ''application/json; charset=utf-8'', get_json = Inr updated_data,
      today = example_date\<rparr> example_store =
     (make_response (Text ''Content-Type must be application/json'') 415 [], example_store)"
proof -
  have f: "fromisoformat ''2024-01-01'' = Some example_date"
    by (simp add: fromisoformat_def char_digit_def decimal_digits_def valid_date_def
        days_in_month_def is_leap_def example_date_def)
  have i: "isoformat example_date = ''2024-01-01''"
    by (simp add: isoformat_def pad4_def pad2_def digit_char_def decimal_digits_def
        example_date_def)
  have d: "deserialize example_date (Some 1) updated_data =
           Inr \<lparr>acc_id = Some 1, name = ''New Name'', email = ''new@email.com'',
                address = ''New Address'', phone_number = ''0123456778'',
                date_joined = example_date\<rparr>"
    by (simp add: updated_data_def deserialize_def required_text_def joined_date_def f)
  have a: "account_find example_store 1 = Some example_account"
    by (simp add: account_find_def example_store_def example_account_def)
  have k: "acc_id example_account = Some 1"
    by (simp add: example_account_def)
  have put: "\<And>ct. dispatch (PUT_account 1)
       \<lparr>content_type = ct, get_json = Inr updated_data, today = example_date\<rparr> example_store =
     (make_response
        (Json (JObj [(''id'', JNum 1), (''name'', JStr ''New Name''),
                     (''email'', JStr ''new@email.com''), (''address'', JStr ''New Address''),
                     (''phone_number'', JStr ''0123456778''),
                     (''date_joined'', JStr ''2024-01-01'')]))
        200 [],
      \<lparr>rows = [\<lparr>acc_id = Some 1, name = ''New Name'', email = ''new@email.com'',
                address = ''New Address'', phone_number = ''0123456778'',
                date_joined = example_date\<rparr>],
       next_id = 2\<rparr>)"
    by (simp add: dispatch_def update_account_def a k d serialize_def i account_update_def
        status_defs)
      (simp add: example_store_def example_account_def)
  have post: "dispatch POST_accounts
     \<lparr>content_type = Some ''application/json; charset=utf-8'', get_json = Inr updated_data,
      today = example_date\<rparr> example_store =
     (make_response (Text ''Content-Type must be application/json'') 415 [], example_store)"
    by (simp add: dispatch_def create_accounts_def check_content_type_def error_response_def
        status_defs)
  from put post show ?thesis by simp
qed

subsection \<open>Listing the Accounts\<close>

text \<open>
  Claim C6. For every store, \<open>GET /accounts\<close> returns 200 with the JSON array of the
  serializations of the stored Accounts, one entry per row; for a store without rows the
  body is the empty array.
\<close>

theorem list_accounts_all:
  "dispatch GET_accounts req st =
     (make_response (Json (JArr (map serialize (rows st)))) 200 [], st) \<and>
   length (map serialize (rows st)) = length (rows st) \<and>
   dispatch GET_accounts req (st\<lparr>rows := []\<rparr>) =
     (make_response (Json (JArr [])) 200 [], st\<lparr>rows := []\<rparr>)"
  by (simp add: dispatch_def list_accounts_def account_all_def status_defs)

subsection \<open>The wire form of an Account\<close>

text \<open>
  Claim C7. For every valid Account (one whose \<open>date_joined\<close> is a calendar date),
  deserializing its serialization succeeds and reproduces \<open>name\<close>, \<open>email\<close>,
  \<open>address\<close>, \<open>phone_number\<close> and \<open>date_joined\<close>; the \<open>id\<close> is that of the Account the
  deserialization is run on, whatever \<open>id\<close> the wire record carries.
\<close>

theorem deserialize_serialize_roundtrip:
  assumes "valid_date (date_joined a)"
  shows "\<exists>a'. deserialize t sid (serialize a) = Inr a' \<and>
    name a' = name a \<and> email a' = email a \<and> address a' = address a \<and>
    phone_number a' = phone_number a \<and> date_joined a' = date_joined a \<and> acc_id a' = sid"
  using deserialize_serialize_eq [OF assms, of t sid] by simp

text \<open>An instance: the stored example Account read back into a fresh Account.\<close>

theorem deserialize_serialize_roundtrip_witness:
  "valid_date (date_joined example_account) \<and>
   deserialize example_date None (serialize example_account) =
     Inr (example_account\<lparr>acc_id := None\<rparr>)"
proof -
  have v: "valid_date (date_joined example_account)"
    by (simp add: example_account_def example_date_def valid_date_def days_in_month_def)
  from deserialize_serialize_roundtrip [OF v, of example_date None] obtain a' where
    "deserialize example_date None (serialize example_account) = Inr a'"
    "name a' = name example_account" "email a' = email example_account"
    "address a' = address example_account" "phone_number a' = phone_number example_account"
    "date_joined a' = date_joined example_account" "acc_id a' = None"
    by blast
  then have "deserialize example_date None (serialize example_account) =
      Inr (example_account\<lparr>acc_id := None\<rparr>)"
    by simp
  with v show ?thesis by simp
qed

subsection \<open>What the store keeps\<close>

text \<open>
  Claim C10. The read-only routes \<open>GET /health\<close>, \<open>GET /accounts\<close> and
  \<open>GET /accounts/{id}\<close> leave the store as it was, for every request and every store.
\<close>

theorem read_only_routes_keep_store:
  "snd (dispatch GET_health req st) = st \<and>
   snd (dispatch GET_accounts req st) = st \<and>
   snd (dispatch (GET_account i) req st) = st"
  by (simp add: dispatch_def health_def list_accounts_def get_accounts_def
      split: option.splits)



end
